theory Spec2Isabelle
  imports Complex_Main "HOL-Library.Multiset"
begin

section \<open>Values shared by the pipeline and the screener\<close>

text \<open>
  A float cell of a DataFrame or of the database is either a number or NaN (pandas' marker
  of a missing value). A number is the real that the binary64 value stands for. Every
  comparison with NaN is false, as in Python; a comparison of two numbers is exact. The
  infinities are not modelled: \<open>load_data\<close> replaces them before the screener sees them.
\<close>

datatype fl = NaN | Num real

text \<open>
  Arithmetic on binary64 rounds, and \<open>Series.mean()\<close> rounds after every addition in an
  order that is pandas' own. The two operations the screener computes with are therefore
  parameters: \<open>product ar a b\<close> is the float \<open>a * b\<close>, and \<open>average ar xs\<close> is what
  \<open>Series.mean()\<close> returns on the numbers \<open>xs\<close>, in the order of the rows, when there
  is at least one. Every result below holds for every such pair of operations, unless it
  names the arithmetic it is evaluated with.
\<close>

record arithmetic =
  product :: "real \<Rightarrow> real \<Rightarrow> real"
  average :: "real list \<Rightarrow> real"

fun flt :: "fl \<Rightarrow> fl \<Rightarrow> bool" where
  "flt (Num a) (Num b) = (a < b)"
| "flt _ _ = False"

fun fle :: "fl \<Rightarrow> fl \<Rightarrow> bool" where
  "fle (Num a) (Num b) = (a \<le> b)"
| "fle _ _ = False"

definition fgt :: "fl \<Rightarrow> fl \<Rightarrow> bool" where
  "fgt a b = flt b a"

definition fge :: "fl \<Rightarrow> fl \<Rightarrow> bool" where
  "fge a b = fle b a"

fun fmul :: "arithmetic \<Rightarrow> fl \<Rightarrow> fl \<Rightarrow> fl" where
  "fmul ar (Num a) (Num b) = Num (product ar a b)"
| "fmul ar _ _ = NaN"

text \<open>Python's builtin \<open>min(a, b)\<close>: the first argument unless the second is smaller.\<close>

definition py_min :: "fl \<Rightarrow> fl \<Rightarrow> fl" where
  "py_min a b = (if flt b a then b else a)"

fun numbers :: "fl list \<Rightarrow> real list" where
  "numbers [] = []"
| "numbers (NaN # xs) = numbers xs"
| "numbers (Num a # xs) = a # numbers xs"

text \<open>\<open>Series.mean()\<close>: NaN cells are skipped; the mean of nothing is NaN.\<close>

definition mean :: "arithmetic \<Rightarrow> fl list \<Rightarrow> fl" where
  "mean ar xs = (if numbers xs = [] then NaN else Num (average ar (numbers xs)))"

text \<open>
  A calendar date. \<open>ordinal\<close> counts its days from 1970-01-01, so that dates are compared
  and a \<open>timedelta\<close> of days is subtracted on the ordinal.
\<close>

datatype date = Date (d_year: int) (d_month: int) (d_day: int)

definition ordinal :: "date \<Rightarrow> int" where
  "ordinal d =
     (let y = (if d_month d \<le> 2 then d_year d - 1 else d_year d);
          era = y div 400;
          yoe = y - era * 400;
          mp = (if d_month d > 2 then d_month d - 3 else d_month d + 9);
          doy = (153 * mp + 2) div 5 + d_day d - 1;
          doe = yoe * 365 + yoe div 4 - yoe div 100 + doy
      in era * 146097 + doe - 719468)"

text \<open>
  One row of the history (table \<open>macrotrends_pe_pb_hist\<close>, and the frame the poller stores
  into it): a cell that is missing is \<open>None\<close> for a date (NaT) or a string, NaN for a float.
\<close>

record ratio_row =
  r_date :: "date option"
  r_symbol :: "string option"
  r_name :: "string option"
  r_stock_price :: fl
  r_book_value_per_share :: fl
  r_price_to_book_ratio :: fl
  r_ttm_net_eps :: fl
  r_pe_ratio :: fl

text \<open>One row of the current ratios (table \<open>current_ratios\<close>).\<close>

record current_row =
  c_symbol :: "string option"
  c_last_update :: nat
  c_pb_ratio :: fl
  c_pe_ratio :: fl

datatype exn =
    Request_Error
  | Attribute_Error
  | Value_Error
  | No_Tables_Found
  | Unbound_Local string
  | Invalid_Index
  | Database_Error
  | Ticker_Fetch_Failed
  | Index_Error

section \<open>The ratio fetchers: \<open>StockDataAPI\<close>\<close>

text \<open>
  What \<open>requests.get\<close> and BeautifulSoup hand to a fetcher: the text of the element that
  holds the current ratio, when the page has it, and the cells of the history table read
  with \<open>header=1\<close>, when the page has a table. A cell is \<open>None\<close> when it is missing:
  \<open>pd.read_html\<close> has already turned an empty cell, and a cell whose text is one of its
  markers of a missing value (\<open>n/a\<close>, \<open>NaN\<close>, \<open>null\<close> and the like), into NaN, so that
  the text of a cell that is \<open>Some\<close> is none of these.
  The parsers of pandas and Python are parameters: \<open>to_datetime\<close> and \<open>to_float\<close>
  return \<open>None\<close> on a text they cannot parse.
\<close>

record raw_pb_row =
  pb_date_cell :: "string option"
  pb_stock_price_cell :: "string option"
  pb_book_value_cell :: "string option"
  pb_ratio_cell :: "string option"

record raw_pe_row =
  pe_date_cell :: "string option"
  pe_stock_price_cell :: "string option"
  pe_eps_cell :: "string option"
  pe_ratio_cell :: fl

record 'row page =
  current_text :: "string option"
  table :: "'row list option"

record pb_row =
  pb_symbol :: string
  pb_name :: string
  pb_date :: "date option"
  pb_stock_price :: fl
  pb_book_value_per_share :: fl
  pb_price_to_book_ratio :: fl

record pe_row =
  pe_date :: "date option"
  pe_ttm_net_eps :: fl
  pe_pe_ratio :: fl

text \<open>\<open>float(element.text)\<close>: the element may be missing, its text may not be a number.\<close>

definition current_value :: "(string \<Rightarrow> fl option) \<Rightarrow> string option \<Rightarrow> exn + fl" where
  "current_value to_float el =
     (case el of
        None \<Rightarrow> Inl Attribute_Error
      | Some txt \<Rightarrow> (case to_float txt of None \<Rightarrow> Inl Value_Error | Some v \<Rightarrow> Inr v))"

text \<open>\<open>pd.to_datetime(column)\<close>: an empty cell becomes NaT, an unparseable one raises.\<close>

fun to_datetime_raise :: "(string \<Rightarrow> date option) \<Rightarrow> string option list \<Rightarrow> exn + date option list" where
  "to_datetime_raise to_datetime [] = Inr []"
| "to_datetime_raise to_datetime (None # cs) =
     (case to_datetime_raise to_datetime cs of Inl e \<Rightarrow> Inl e | Inr ds \<Rightarrow> Inr (None # ds))"
| "to_datetime_raise to_datetime (Some txt # cs) =
     (case to_datetime txt of
        None \<Rightarrow> Inl Value_Error
      | Some d \<Rightarrow>
          (case to_datetime_raise to_datetime cs of Inl e \<Rightarrow> Inl e | Inr ds \<Rightarrow> Inr (Some d # ds)))"

text \<open>\<open>pd.to_datetime(column, errors='coerce')\<close>: an unparseable cell becomes NaT too.\<close>

definition to_datetime_coerce :: "(string \<Rightarrow> date option) \<Rightarrow> string option \<Rightarrow> date option" where
  "to_datetime_coerce to_datetime c = (case c of None \<Rightarrow> None | Some txt \<Rightarrow> to_datetime txt)"

text \<open>\<open>column.replace('[$,]', '', regex=True).astype(float)\<close> on one column: the parameter
  \<open>to_float\<close> stands for the replacement and the conversion of one text.\<close>

fun astype_float :: "(string \<Rightarrow> fl option) \<Rightarrow> string option list \<Rightarrow> exn + fl list" where
  "astype_float to_float [] = Inr []"
| "astype_float to_float (None # cs) =
     (case astype_float to_float cs of Inl e \<Rightarrow> Inl e | Inr vs \<Rightarrow> Inr (NaN # vs))"
| "astype_float to_float (Some txt # cs) =
     (case to_float txt of
        None \<Rightarrow> Inl Value_Error
      | Some v \<Rightarrow>
          (case astype_float to_float cs of Inl e \<Rightarrow> Inl e | Inr vs \<Rightarrow> Inr (v # vs)))"

definition get_pe_ratio_history ::
  "(string \<Rightarrow> date option) \<Rightarrow> (string \<Rightarrow> fl option) \<Rightarrow> exn + raw_pe_row page
     \<Rightarrow> exn + (pe_row list \<times> fl)" where
  "get_pe_ratio_history to_datetime to_float response =
     (case response of
        Inl e \<Rightarrow> Inl e
      | Inr pg \<Rightarrow>
     (case current_value to_float (current_text pg) of
        Inl e \<Rightarrow> Inl e
      | Inr current_pe_ratio \<Rightarrow>
     (case table pg of
        None \<Rightarrow> Inl No_Tables_Found
      | Some df \<Rightarrow>
     (case to_datetime_raise to_datetime (map pe_date_cell df) of
        Inl e \<Rightarrow> Inl e
      | Inr dates \<Rightarrow>
     (case astype_float to_float (map pe_eps_cell df) of
        Inl e \<Rightarrow> Inl e
      | Inr eps \<Rightarrow>
          Inr (map (\<lambda>(d, e, r). \<lparr>pe_date = d, pe_ttm_net_eps = e, pe_pe_ratio = pe_ratio_cell r\<rparr>)
                 (zip dates (zip eps df)),
               current_pe_ratio))))))"

definition get_pb_ratio_history ::
  "(string \<Rightarrow> date option) \<Rightarrow> (string \<Rightarrow> fl option) \<Rightarrow> string \<Rightarrow> string \<Rightarrow> exn + raw_pb_row page
     \<Rightarrow> exn + (pb_row list \<times> fl)" where
  "get_pb_ratio_history to_datetime to_float symbol company_name response =
     (case response of
        Inl e \<Rightarrow> Inl e
      | Inr pg \<Rightarrow>
     (case current_value to_float (current_text pg) of
        Inl e \<Rightarrow> Inl e
      | Inr current_pb_ratio \<Rightarrow>
     (case table pg of
        None \<Rightarrow> Inl No_Tables_Found
      | Some df0 \<Rightarrow>
     (let dated = map (\<lambda>r. (to_datetime_coerce to_datetime (pb_date_cell r), r)) df0;
          df = filter (\<lambda>(d, r). d \<noteq> None) dated
      in
     (case astype_float to_float (map (\<lambda>(d, r). pb_stock_price_cell r) df) of
        Inl e \<Rightarrow> Inl e
      | Inr prices \<Rightarrow>
     (case astype_float to_float (map (\<lambda>(d, r). pb_book_value_cell r) df) of
        Inl e \<Rightarrow> Inl e
      | Inr book_values \<Rightarrow>
     (case astype_float to_float (map (\<lambda>(d, r). pb_ratio_cell r) df) of
        Inl e \<Rightarrow> Inl e
      | Inr ratios \<Rightarrow>
          Inr (map (\<lambda>((d, r), p, b, q).
                      \<lparr>pb_symbol = symbol, pb_name = company_name, pb_date = d,
                       pb_stock_price = p, pb_book_value_per_share = b,
                       pb_price_to_book_ratio = q\<rparr>)
                 (zip df (zip prices (zip book_values ratios))),
               current_pb_ratio))))))))"

section \<open>The storage: \<open>PostgreSQL\<close>\<close>

text \<open>
  The two tables, and a connection to them: what is committed, what the open transaction
  sees (\<open>working\<close>), and which tuples the server refuses with an error (a value that
  does not fit its column, a tuple of the wrong width). Logging is left out; a commit and
  a rollback themselves always succeed.
\<close>

record tables =
  history :: "ratio_row list"
  current_ratios :: "current_row list"

record connection =
  committed :: tables
  working :: tables
  refuses_history :: "ratio_row \<Rightarrow> bool"
  refuses_current :: "current_row \<Rightarrow> bool"

definition commit :: "connection \<Rightarrow> connection" where
  "commit conn = conn\<lparr>committed := working conn\<rparr>"

definition rollback :: "connection \<Rightarrow> connection" where
  "rollback conn = conn\<lparr>working := committed conn\<rparr>"

text \<open>
  \<open>INSERT ... ON CONFLICT (Symbol, Date) DO NOTHING\<close>, on the values of one tuple as the
  driver sends them. A text cell that is missing in the frame is the float NaN there, and
  arrives in its \<open>VARCHAR\<close> column as the text \<open>NaN\<close>. A unique constraint never
  matches a NULL, so a row with a missing date conflicts with nothing.
\<close>

definition adapt_text :: "string option \<Rightarrow> string option" where
  "adapt_text cell = (case cell of None \<Rightarrow> Some ''NaN'' | Some txt \<Rightarrow> Some txt)"

definition history_conflict :: "ratio_row \<Rightarrow> ratio_row \<Rightarrow> bool" where
  "history_conflict new old \<longleftrightarrow>
     r_symbol new \<noteq> None \<and> r_date new \<noteq> None \<and>
     r_symbol old = r_symbol new \<and> r_date old = r_date new"

definition insert_history :: "ratio_row \<Rightarrow> tables \<Rightarrow> tables" where
  "insert_history tuple t =
     (let new = tuple\<lparr>r_symbol := adapt_text (r_symbol tuple), r_name := adapt_text (r_name tuple)\<rparr>
      in if list_ex (history_conflict new) (history t) then t
         else t\<lparr>history := history t @ [new]\<rparr>)"

text \<open>\<open>INSERT ... ON CONFLICT (Symbol) DO UPDATE SET PB_Ratio, PE_Ratio, Last_Update\<close>.\<close>

definition current_conflict :: "current_row \<Rightarrow> current_row \<Rightarrow> bool" where
  "current_conflict new old \<longleftrightarrow> c_symbol new \<noteq> None \<and> c_symbol old = c_symbol new"

definition upsert_current :: "current_row \<Rightarrow> tables \<Rightarrow> tables" where
  "upsert_current new t =
     (if list_ex (current_conflict new) (current_ratios t)
      then t\<lparr>current_ratios :=
               map (\<lambda>old. if current_conflict new old
                           then old\<lparr>c_pb_ratio := c_pb_ratio new, c_pe_ratio := c_pe_ratio new,
                                    c_last_update := c_last_update new\<rparr>
                           else old)
                   (current_ratios t)\<rparr>
      else t\<lparr>current_ratios := current_ratios t @ [new]\<rparr>)"

text \<open>
  \<open>cursor.executemany\<close>: the statement runs once per tuple, in order, inside the open
  transaction; the first refused tuple raises and the tuples before it stay in the
  transaction.
\<close>

fun executemany ::
  "('r \<Rightarrow> bool) \<Rightarrow> ('r \<Rightarrow> tables \<Rightarrow> tables) \<Rightarrow> 'r list \<Rightarrow> connection \<Rightarrow> exn option \<times> connection" where
  "executemany refuses stmt [] conn = (None, conn)"
| "executemany refuses stmt (t # ts) conn =
     (if refuses t then (Some Database_Error, conn)
      else executemany refuses stmt ts (conn\<lparr>working := stmt t (working conn)\<rparr>))"

text \<open>The context manager \<open>transaction\<close>: commit when the body returns, roll back and re-raise when it raises.\<close>

definition transaction ::
  "(connection \<Rightarrow> exn option \<times> connection) \<Rightarrow> connection \<Rightarrow> exn option \<times> connection" where
  "transaction body conn =
     (case body conn of
        (None, conn') \<Rightarrow> (None, commit conn')
      | (Some e, conn') \<Rightarrow> (Some e, rollback conn'))"

definition prepare_tuples :: "'r list \<Rightarrow> 'r list" where
  "prepare_tuples df = df"

definition store_report_dataframes :: "ratio_row list list \<Rightarrow> connection \<Rightarrow> exn option \<times> connection" where
  "store_report_dataframes dataframes conn =
     (let all_data = concat (map prepare_tuples dataframes)
      in transaction (executemany (refuses_history conn) insert_history all_data) conn)"

definition store_current_ratio_dataframes ::
  "current_row list list \<Rightarrow> connection \<Rightarrow> exn option \<times> connection" where
  "store_current_ratio_dataframes dataframes conn =
     (let all_data = concat (map prepare_tuples dataframes)
      in transaction (executemany (refuses_current conn) upsert_current all_data) conn)"

section \<open>One batch of the poller: \<open>DataPoller.poll_tickers\<close>\<close>

record ticker =
  t_symbol :: string
  t_full_name :: string
  t_url :: string

text \<open>
  The injected API object, as the poller sees it: what each call returns or raises.
  With it come the two other things a batch depends on and the poller does not decide:
  \<open>timestamp_now\<close> is the clock read by \<open>pd.Timestamp.now()\<close> while a ticker is polled,
  and \<open>concat_repeated_dates\<close> is what \<open>pd.concat\<close> and \<open>sort_values\<close> make of two
  frames of which one repeats a date (see \<open>concat_frames\<close>).
\<close>

record api =
  get_exchange_tickers :: "exn + ticker list"
  pb_ratio_history :: "ticker \<Rightarrow> exn + (pb_row list \<times> fl)"
  pe_ratio_history :: "ticker \<Rightarrow> exn + (pe_row list \<times> fl)"
  timestamp_now :: "ticker \<Rightarrow> nat"
  concat_repeated_dates :: "pb_row list \<Rightarrow> pe_row list \<Rightarrow> exn + ratio_row list"

text \<open>
  The local variables of \<open>poll_tickers\<close> that live across iterations of its loop. A
  variable that has not been assigned yet is \<open>None\<close>; reading it raises
  \<open>UnboundLocalError\<close>. Nothing resets them between tickers.
\<close>

record locals =
  pb_history_df :: "pb_row list option"
  current_pb :: "fl option"
  pe_history_df :: "pe_row list option"
  current_pe :: "fl option"
  concat_df :: "ratio_row list option"
  ratio_history_df_chunk :: "ratio_row list list"
  current_ratio_rows :: "current_row list"

definition no_locals :: locals where
  "no_locals =
     \<lparr>pb_history_df = None, current_pb = None, pe_history_df = None, current_pe = None,
      concat_df = None, ratio_history_df_chunk = [], current_ratio_rows = []\<rparr>"

datatype poll_event =
    Debug_Fetching_Tickers
  | Debug_Polling_Started nat
  | Call_PB string
  | Debug_Fetched_PB string nat
  | Warn_PB_Failed string
  | Call_PE string
  | Debug_Fetched_PE string nat
  | Warn_PE_Failed string
  | Warn_Concat_Failed string
  | Do_Sleep
  | Call_Store_Report "ratio_row list list"
  | Debug_Stored_Report string
  | Warning_Store_Report string
  | Call_Store_Current "current_row list list"
  | Debug_Stored_Current string
  | Warning_Store_Current string

text \<open>
  \<open>pd.concat([pb.set_index('date'), pe.set_index('date')], axis=1).reset_index()\<close>
  followed by \<open>sort_values('date', ascending=False)\<close>. When no date is repeated within
  either frame, the frames are joined on the union of their dates: a side without a row
  on a date leaves its cells missing (NaN, also in the columns \<open>symbol\<close> and \<open>name\<close>),
  and the rows come out by descending date, NaT last. When a date is repeated, whether
  pandas joins or refuses depends on how it aligns the two indexes, and the order that
  \<open>sort_values\<close> gives to rows of equal dates is its own: that case is the parameter
  \<open>repeated\<close>. The tables of the source have one row per date.
\<close>

definition merged_row :: "date option \<Rightarrow> pb_row option \<Rightarrow> pe_row option \<Rightarrow> ratio_row" where
  "merged_row d p q =
     \<lparr>r_date = d,
      r_symbol = map_option pb_symbol p,
      r_name = map_option pb_name p,
      r_stock_price = (case p of None \<Rightarrow> NaN | Some x \<Rightarrow> pb_stock_price x),
      r_book_value_per_share = (case p of None \<Rightarrow> NaN | Some x \<Rightarrow> pb_book_value_per_share x),
      r_price_to_book_ratio = (case p of None \<Rightarrow> NaN | Some x \<Rightarrow> pb_price_to_book_ratio x),
      r_ttm_net_eps = (case q of None \<Rightarrow> NaN | Some y \<Rightarrow> pe_ttm_net_eps y),
      r_pe_ratio = (case q of None \<Rightarrow> NaN | Some y \<Rightarrow> pe_pe_ratio y)\<rparr>"

definition sort_values_date :: "('a \<Rightarrow> date option) \<Rightarrow> bool \<Rightarrow> 'a list \<Rightarrow> 'a list" where
  "sort_values_date date_of ascending rows =
     (let dated = sort_key (\<lambda>r. ordinal (the (date_of r))) (filter (\<lambda>r. date_of r \<noteq> None) rows)
      in (if ascending then dated else rev dated) @ filter (\<lambda>r. date_of r = None) rows)"

definition concat_frames ::
  "(pb_row list \<Rightarrow> pe_row list \<Rightarrow> exn + ratio_row list) \<Rightarrow> pb_row list \<Rightarrow> pe_row list
     \<Rightarrow> exn + ratio_row list" where
  "concat_frames repeated pb pe =
     (let pb_index = map pb_date pb; pe_index = map pe_date pe in
      if \<not> distinct pb_index \<or> \<not> distinct pe_index then repeated pb pe
      else Inr (sort_values_date r_date False
                  (map (\<lambda>d. merged_row d (find (\<lambda>p. pb_date p = d) pb) (find (\<lambda>q. pe_date q = d) pe))
                       (pb_index @ filter (\<lambda>d. d \<notin> set pb_index) pe_index))))"

text \<open>
  The body of the loop for one ticker, from the state the previous tickers left. The
  result is \<open>Inr\<close> when the loop goes on (also through \<open>continue\<close>) and \<open>Inl\<close> when an
  exception leaves \<open>poll_tickers\<close>.
\<close>

definition poll_ticker ::
  "api \<Rightarrow> ticker \<Rightarrow> locals \<times> connection \<Rightarrow> poll_event list \<times> (exn + unit) \<times> locals \<times> connection" where
  "poll_ticker a r st =
     (case st of (l, database) \<Rightarrow>
      (case pb_ratio_history a r of
         Inl e \<Rightarrow> ([Call_PB (t_symbol r), Warn_PB_Failed (t_url r)], Inr (), l, database)
       | Inr (pb_df, pb_now) \<Rightarrow>
      (let l1 = l\<lparr>pb_history_df := Some pb_df, current_pb := Some pb_now\<rparr>;
           ev1 = [Call_PB (t_symbol r), Debug_Fetched_PB (t_symbol r) (length pb_df), Do_Sleep];
           (ev2, l2) =
             (case pe_ratio_history a r of
                Inr (pe_df, pe_now) \<Rightarrow>
                  ([Call_PE (t_symbol r), Debug_Fetched_PE (t_symbol r) (length pe_df), Do_Sleep],
                   l1\<lparr>pe_history_df := Some pe_df, current_pe := Some pe_now\<rparr>)
              | Inl e \<Rightarrow> ([Call_PE (t_symbol r), Warn_PE_Failed (t_url r), Do_Sleep], l1));
           (ev3, l3) =
             (case pe_history_df l2 of
                None \<Rightarrow> ([Warn_Concat_Failed (t_symbol r)], l2)
              | Some pe_df \<Rightarrow>
                  (case concat_frames (concat_repeated_dates a) pb_df pe_df of
                     Inl e \<Rightarrow> ([Warn_Concat_Failed (t_symbol r)], l2)
                   | Inr df \<Rightarrow>
                       ([], l2\<lparr>concat_df := Some df,
                                ratio_history_df_chunk := ratio_history_df_chunk l2 @ [df]\<rparr>)))
       in
       (case current_pe l3 of
          None \<Rightarrow> (ev1 @ ev2 @ ev3, Inl (Unbound_Local ''current_pe''), l3, database)
        | Some pe_now \<Rightarrow>
       (let l4 = l3\<lparr>current_ratio_rows := current_ratio_rows l3 @
                       [\<lparr>c_symbol = Some (t_symbol r), c_last_update = timestamp_now a r,
                         c_pb_ratio = pb_now, c_pe_ratio = pe_now\<rparr>]\<rparr>;
            (ev5, database5) =
              (case concat_df l4 of
                 None \<Rightarrow> ([Warning_Store_Report (t_symbol r)], database)
               | Some df \<Rightarrow>
                   (case store_report_dataframes [df] database of
                      (None, db') \<Rightarrow> ([Call_Store_Report [df], Debug_Stored_Report (t_symbol r)], db')
                    | (Some e, db') \<Rightarrow> ([Call_Store_Report [df], Warning_Store_Report (t_symbol r)], db')));
            l5 = l4\<lparr>ratio_history_df_chunk := []\<rparr>;
            (ev6, database6) =
              (case store_current_ratio_dataframes [current_ratio_rows l5] database5 of
                 (None, db') \<Rightarrow>
                   ([Call_Store_Current [current_ratio_rows l5], Debug_Stored_Current (t_symbol r)], db')
               | (Some e, db') \<Rightarrow>
                   ([Call_Store_Current [current_ratio_rows l5], Warning_Store_Current (t_symbol r)], db'));
            l6 = l5\<lparr>current_ratio_rows := []\<rparr>
        in (ev1 @ ev2 @ ev3 @ ev5 @ ev6, Inr (), l6, database6))))))"

fun poll_loop ::
  "api \<Rightarrow> ticker list \<Rightarrow> locals \<times> connection \<Rightarrow> poll_event list \<times> (exn + unit) \<times> locals \<times> connection" where
  "poll_loop a [] (l, database) = ([], Inr (), l, database)"
| "poll_loop a (r # rs) (l, database) =
     (case poll_ticker a r (l, database) of
        (evs, Inl e, l', database') \<Rightarrow> (evs, Inl e, l', database')
      | (evs, Inr u, l', database') \<Rightarrow>
          (case poll_loop a rs (l', database') of
             (evs', res, l'', database'') \<Rightarrow> (evs @ evs', res, l'', database'')))"

definition poll_tickers :: "api \<Rightarrow> connection \<Rightarrow> poll_event list \<times> (exn + unit) \<times> connection" where
  "poll_tickers a database =
     (case get_exchange_tickers a of
        Inl e \<Rightarrow> ([Debug_Fetching_Tickers], Inl Ticker_Fetch_Failed, database)
      | Inr all_tickers_df \<Rightarrow>
          (case poll_loop a all_tickers_df (no_locals, database) of
             (evs, res, l, database') \<Rightarrow>
               (Debug_Fetching_Tickers # Debug_Polling_Started (length all_tickers_df) # evs,
                res, database')))"

section \<open>The screener: \<open>screen_stocks\<close>\<close>

text \<open>
  The history frame that \<open>load_data\<close> hands to \<open>screen_stocks\<close>: its rows, the dtype of
  its \<open>date\<close> column (Python dates as the database driver returns them, or pandas
  timestamps), and its \<open>year\<close> column when it has one. The caller keeps a reference to
  the frame, so the model returns the frame as the call leaves it.
\<close>

datatype dtype = Object_Dtype | Datetime64

record history_frame =
  hf_rows :: "ratio_row list"
  hf_date_dtype :: dtype
  hf_year :: "int option list option"

record criteria =
  years_pb_history :: int
  max_current_pb_ratio :: fl
  only_positive_pb :: bool
  pb_margin_of_safety :: fl
  max_current_pe_ratio :: fl
  years_positive_pe_history :: int
  pe_margin_of_safety :: fl

text \<open>A row inside \<open>screen_stocks\<close>, with its cell of the \<open>year\<close> column (NaN when the date is NaT).\<close>

type_synonym yrow = "ratio_row \<times> int option"

definition year_column :: "ratio_row list \<Rightarrow> int option list" where
  "year_column rows = map (\<lambda>r. map_option d_year (r_date r)) rows"

text \<open>\<open>Series.max()\<close> of the year column: NaN cells are skipped, NaN when nothing is left.\<close>

fun max_year :: "int option list \<Rightarrow> int option" where
  "max_year [] = None"
| "max_year (None # ys) = max_year ys"
| "max_year (Some y # ys) = (case max_year ys of None \<Rightarrow> Some y | Some m \<Rightarrow> Some (max y m))"

text \<open>
  Lines 49 to 55: the rows of the current year go, then the rows that are not younger
  than ten years before the most recent year left. A comparison with NaN is false, but
  \<open>!=\<close> with NaN is true.
\<close>

definition not_current_year :: "int \<Rightarrow> yrow list \<Rightarrow> yrow list" where
  "not_current_year now_year df = filter (\<lambda>(r, y). y \<noteq> Some now_year) df"

definition window :: "int \<Rightarrow> yrow list \<Rightarrow> yrow list" where
  "window now_year df =
     (let df1 = not_current_year now_year df;
          most_recent_year = max_year (map snd df1)
      in filter (\<lambda>(r, y). case (y, most_recent_year) of
                            (Some v, Some m) \<Rightarrow> v > m - 10
                          | _ \<Rightarrow> False) df1)"

text \<open>
  \<open>calculate_avg_pb_ratios\<close>. It sorts its argument in place, so the sorted frame is
  part of the result, before the two averages and the available years.
\<close>

fun max_date :: "date option list \<Rightarrow> date option" where
  "max_date [] = None"
| "max_date (None # ds) = max_date ds"
| "max_date (Some d # ds) =
     (case max_date ds of None \<Rightarrow> Some d | Some m \<Rightarrow> Some (if ordinal m < ordinal d then d else m))"

fun min_date :: "date option list \<Rightarrow> date option" where
  "min_date [] = None"
| "min_date (None # ds) = min_date ds"
| "min_date (Some d # ds) =
     (case min_date ds of None \<Rightarrow> Some d | Some m \<Rightarrow> Some (if ordinal d < ordinal m then d else m))"

definition calculate_avg_pb_ratios ::
  "arithmetic \<Rightarrow> yrow list \<Rightarrow> yrow list \<times> fl \<times> fl \<times> int option" where
  "calculate_avg_pb_ratios ar stock_data0 =
     (let stock_data = sort_values_date (r_date \<circ> fst) True stock_data0;
          last_q_report_date = max_date (map (r_date \<circ> fst) stock_data);
          available_years =
            (case (last_q_report_date, min_date (map (r_date \<circ> fst) stock_data)) of
               (Some l, Some f) \<Rightarrow> Some ((d_year l - d_year f) + 1)
             | _ \<Rightarrow> None);
          avg_calc_rows =
            filter (\<lambda>(r, y). case (r_date r, last_q_report_date) of
                                (Some d, Some l) \<Rightarrow> ordinal d > ordinal l - 3 * 365
                              | _ \<Rightarrow> False) stock_data;
          avg_pb_3_year = mean ar (map (r_price_to_book_ratio \<circ> fst) avg_calc_rows);
          avg_pb_max_year = mean ar (map (r_price_to_book_ratio \<circ> fst) stock_data)
      in (stock_data, avg_pb_3_year, avg_pb_max_year, available_years))"

text \<open>The local values of \<open>stock_meets_criteria\<close>, for a group that has a row.\<close>

definition current_ratios_row :: "current_row list \<Rightarrow> yrow list \<Rightarrow> current_row option" where
  "current_ratios_row current_df grp =
     (case r_symbol (fst (hd grp)) of
        None \<Rightarrow> None
      | Some s \<Rightarrow> find (\<lambda>c. c_symbol c = Some s) current_df)"

definition latest_row :: "yrow list \<Rightarrow> ratio_row" where
  "latest_row grp = fst (last (sort_values_date (r_date \<circ> fst) True grp))"

definition latest_pb_ratio :: "current_row list \<Rightarrow> yrow list \<Rightarrow> fl" where
  "latest_pb_ratio current_df grp =
     (case current_ratios_row current_df grp of
        Some c \<Rightarrow> c_pb_ratio c
      | None \<Rightarrow> r_price_to_book_ratio (latest_row grp))"

definition latest_pe_ratio :: "current_row list \<Rightarrow> yrow list \<Rightarrow> fl" where
  "latest_pe_ratio current_df grp =
     (case current_ratios_row current_df grp of
        Some c \<Rightarrow> c_pe_ratio c
      | None \<Rightarrow> r_pe_ratio (latest_row grp))"

definition nunique_years :: "yrow list \<Rightarrow> int" where
  "nunique_years grp = int (length (remdups (filter (\<lambda>y. y \<noteq> None) (map snd grp))))"

text \<open>\<open>GroupBy.first()\<close> takes, in each year, the first cell that is not NaN, in the order of the rows.\<close>

fun first_valid :: "fl list \<Rightarrow> fl" where
  "first_valid [] = NaN"
| "first_valid (NaN # vs) = first_valid vs"
| "first_valid (Num a # vs) = Num a"

definition pe_ratios :: "yrow list \<Rightarrow> fl list" where
  "pe_ratios grp =
     map (\<lambda>y. first_valid (map (r_pe_ratio \<circ> fst) (filter (\<lambda>(r, y'). y' = y) grp)))
         (remdups (filter (\<lambda>y. y \<noteq> None) (map snd grp)))"

text \<open>
  \<open>stock_meets_criteria\<close>: the flag \<open>valid\<close> starts true and each check can only clear
  it. A group without rows, which \<open>groupby\<close> never produces, fails with
  \<open>IndexError\<close> at \<open>iloc[-1]\<close>, since no snapshot row was found for it either.
\<close>

definition stock_meets_criteria ::
  "arithmetic \<Rightarrow> current_row list \<Rightarrow> criteria \<Rightarrow> yrow list \<Rightarrow> exn + bool" where
  "stock_meets_criteria ar current_df crit group0 =
     (if group0 = [] then Inl Index_Error
      else
        (let valid = True;
             valid = (if nunique_years group0 < years_pb_history crit then False else valid);
             valid = (if only_positive_pb crit \<and>
                         list_ex (\<lambda>(r, y). fle (r_price_to_book_ratio r) (Num 0)) group0
                      then False else valid);
             latest_pb = latest_pb_ratio current_df group0;
             valid = (if fge latest_pb (max_current_pb_ratio crit) then False else valid);
             (group1, avg_pb_3_year, avg_pb_max_year, available_years) = calculate_avg_pb_ratios ar group0;
             valid = (if fgt latest_pb (fmul ar (pb_margin_of_safety crit) (py_min avg_pb_3_year avg_pb_max_year))
                      then False else valid);
             group2 = sort_values_date (r_date \<circ> fst) False group1;
             valid = (if int (length (filter (\<lambda>v. fgt v (Num 0)) (pe_ratios group2)))
                           < years_positive_pe_history crit
                      then False else valid);
             latest_pe = latest_pe_ratio current_df group2;
             valid = (if fge latest_pe (max_current_pe_ratio crit) then False else valid)
         in Inr valid))"

text \<open>
  \<open>df.groupby('symbol').filter(stock_meets_criteria)['symbol'].unique()\<close>: the function
  is applied to the rows of each symbol (a row without a symbol belongs to no group); an
  exception of one call is the exception of the whole. The result lists the symbols whose
  call returned true.
\<close>

definition unique :: "'a list \<Rightarrow> 'a list" where
  "unique xs = rev (remdups (rev xs))"

definition group_keys :: "yrow list \<Rightarrow> string list" where
  "group_keys df = unique (concat (map (\<lambda>(r, y). case r_symbol r of None \<Rightarrow> [] | Some s \<Rightarrow> [s]) df))"

definition get_group :: "string \<Rightarrow> yrow list \<Rightarrow> yrow list" where
  "get_group s df = filter (\<lambda>(r, y). r_symbol r = Some s) df"

fun filter_groups :: "(yrow list \<Rightarrow> exn + bool) \<Rightarrow> yrow list \<Rightarrow> string list \<Rightarrow> exn + string list" where
  "filter_groups func df [] = Inr []"
| "filter_groups func df (s # ss) =
     (case func (get_group s df) of
        Inl e \<Rightarrow> Inl e
      | Inr keep \<Rightarrow>
          (case filter_groups func df ss of
             Inl e \<Rightarrow> Inl e
           | Inr kept \<Rightarrow> Inr (if keep then s # kept else kept)))"

definition screened_symbols ::
  "arithmetic \<Rightarrow> current_row list \<Rightarrow> criteria \<Rightarrow> yrow list \<Rightarrow> exn + string list" where
  "screened_symbols ar current_df crit df =
     filter_groups (stock_meets_criteria ar current_df crit) df (group_keys df)"

text \<open>
  \<open>screen_stocks\<close>, with the arithmetic and the year of \<open>datetime.now()\<close> as
  parameters. The first
  component of the result is the caller's frame after the call: lines 45 and 46 assign
  to its columns before \<open>df\<close> is rebound to a filtered copy.
\<close>

definition windowed_history :: "int \<Rightarrow> history_frame \<Rightarrow> yrow list" where
  "windowed_history now_year df = window now_year (zip (hf_rows df) (year_column (hf_rows df)))"

definition screen_stocks ::
  "arithmetic \<Rightarrow> int \<Rightarrow> history_frame \<Rightarrow> current_row list \<Rightarrow> criteria
     \<Rightarrow> history_frame \<times> (exn + (yrow list \<times> current_row list))" where
  "screen_stocks ar now_year df0 current_df crit =
     (let df1 = df0\<lparr>hf_date_dtype := Datetime64\<rparr>;
          df2 = df1\<lparr>hf_year := Some (year_column (hf_rows df1))\<rparr>;
          df = windowed_history now_year df2
      in (df2,
          case screened_symbols ar current_df crit df of
            Inl e \<Rightarrow> Inl e
          | Inr symbols \<Rightarrow>
              Inr (filter (\<lambda>(r, y). case r_symbol r of None \<Rightarrow> False | Some s \<Rightarrow> s \<in> set symbols) df,
                   filter (\<lambda>c. case c_symbol c of None \<Rightarrow> False | Some s \<Rightarrow> s \<in> set symbols)
                          current_df)))"

section \<open>The retry loop of the poller: \<open>DataPoller.run\<close>\<close>

text \<open>
  \<open>run\<close> calls \<open>poll_tickers\<close> in a \<open>while True\<close> loop. What one call of
  \<open>poll_tickers\<close> does to the loop is one of three things: it returns, it raises an
  \<open>Exception\<close>, or a \<open>KeyboardInterrupt\<close> arrives. The sequence of these outcomes is
  the loop's input; the loop's output is the trace of what it logged and slept, and the
  state it is left in when the outcomes are used up.
\<close>

datatype batch_outcome = Batch_Ok | Batch_Error | Batch_Interrupt

datatype run_event =
    Poll_Tickers
  | Log_Stopped_By_User
  | Log_Polling_Error
  | Log_Max_Retries
  | Log_Retrying nat
  | Sleep nat

datatype run_state = Polling nat | Stopped

definition max_retries :: nat where
  "max_retries = 5"

definition base_wait_time :: nat where
  "base_wait_time = 5"

text \<open>One pass through the body of the \<open>while True\<close> loop, with \<open>retries\<close> as it stands.\<close>

fun run_iteration :: "nat \<Rightarrow> batch_outcome \<Rightarrow> run_event list \<times> run_state" where
  "run_iteration retries Batch_Ok = ([Poll_Tickers], Polling 0)"
| "run_iteration retries Batch_Interrupt = ([Poll_Tickers, Log_Stopped_By_User], Stopped)"
| "run_iteration retries Batch_Error =
     (let retries' = retries + 1 in
      if retries' > max_retries then ([Poll_Tickers, Log_Polling_Error, Log_Max_Retries], Stopped)
      else let wait_time = base_wait_time * 2 ^ retries' in
        ([Poll_Tickers, Log_Polling_Error, Log_Retrying wait_time, Sleep wait_time],
         Polling retries'))"

fun run_loop :: "nat \<Rightarrow> batch_outcome list \<Rightarrow> run_event list \<times> run_state" where
  "run_loop retries [] = ([], Polling retries)"
| "run_loop retries (b # bs) =
     (case run_iteration retries b of
        (evs, Stopped) \<Rightarrow> (evs, Stopped)
      | (evs, Polling retries') \<Rightarrow>
          (case run_loop retries' bs of (evs', st) \<Rightarrow> (evs @ evs', st)))"

definition run :: "batch_outcome list \<Rightarrow> run_event list \<times> run_state" where
  "run bs = run_loop 0 bs"

text \<open>The number of failed batches in a row at the end of the outcomes so far.\<close>

definition trailing_errors :: "batch_outcome list \<Rightarrow> nat" where
  "trailing_errors bs = length (takeWhile (\<lambda>b. b = Batch_Error) (rev bs))"

section \<open>Example inputs\<close>

text \<open>Concrete tickers, pages, API objects and connections, on which the results below are evaluated.\<close>

definition ticker_a :: ticker where
  "ticker_a = \<lparr>t_symbol = ''AAA'', t_full_name = ''Aaa Corp'', t_url = ''AAA/aaa''\<rparr>"

definition ticker_b :: ticker where
  "ticker_b = \<lparr>t_symbol = ''BBB'', t_full_name = ''Bbb Inc'', t_url = ''BBB/bbb''\<rparr>"

definition pb_page_of :: "ticker \<Rightarrow> pb_row list \<times> fl" where
  "pb_page_of r =
     ([\<lparr>pb_symbol = t_symbol r, pb_name = t_full_name r, pb_date = Some (Date 2023 12 31),
        pb_stock_price = Num 30, pb_book_value_per_share = Num 10,
        pb_price_to_book_ratio = Num 3\<rparr>], Num 3)"

definition pe_page_a :: "pe_row list \<times> fl" where
  "pe_page_a =
     ([\<lparr>pe_date = Some (Date 2023 12 31), pe_ttm_net_eps = Num 2, pe_pe_ratio = Num 15\<rparr>], Num 16)"

text \<open>An API whose P/E page fails for every ticker but AAA, and whose P/B page fails for CCC.\<close>

definition flaky_api :: "ticker list \<Rightarrow> api" where
  "flaky_api ts =
     \<lparr>get_exchange_tickers = Inr ts,
      pb_ratio_history = (\<lambda>r. if t_symbol r = ''CCC'' then Inl Request_Error else Inr (pb_page_of r)),
      pe_ratio_history = (\<lambda>r. if t_symbol r = ''AAA'' then Inr pe_page_a else Inl Request_Error),
      timestamp_now = (\<lambda>r. 1000),
      concat_repeated_dates = (\<lambda>pb pe. Inl Invalid_Index)\<rparr>"

definition empty_database :: connection where
  "empty_database =
     \<lparr>committed = \<lparr>history = [], current_ratios = []\<rparr>,
      working = \<lparr>history = [], current_ratios = []\<rparr>,
      refuses_history = (\<lambda>r. False), refuses_current = (\<lambda>r. False)\<rparr>"

definition ticker_c :: ticker where
  "ticker_c = \<lparr>t_symbol = ''CCC'', t_full_name = ''Ccc Ltd'', t_url = ''CCC/ccc''\<rparr>"

definition strict_server :: connection where
  "strict_server =
     \<lparr>committed = \<lparr>history = [], current_ratios = []\<rparr>,
      working = \<lparr>history = [], current_ratios = []\<rparr>,
      refuses_history = (\<lambda>r. case r_symbol r of None \<Rightarrow> False | Some s \<Rightarrow> length s > 10),
      refuses_current = (\<lambda>r. False)\<rparr>"

definition long_symbol_frame :: "ratio_row list" where
  "long_symbol_frame =
     [\<lparr>r_date = Some (Date 2023 12 31), r_symbol = Some ''AAA'', r_name = Some ''Aaa Corp'',
       r_stock_price = Num 10, r_book_value_per_share = Num 5, r_price_to_book_ratio = Num 2,
       r_ttm_net_eps = Num 1, r_pe_ratio = Num 10\<rparr>,
      \<lparr>r_date = Some (Date 2023 9 30), r_symbol = Some ''AAAAAAAAAAAAAAA'', r_name = Some ''Aaa Corp'',
       r_stock_price = Num 9, r_book_value_per_share = Num 5, r_price_to_book_ratio = Num 1.8,
       r_ttm_net_eps = Num 1, r_pe_ratio = Num 9\<rparr>]"

definition known_dates :: "string \<Rightarrow> date option" where
  "known_dates = [''2023-12-31'' \<mapsto> Date 2023 12 31, ''2023-09-30'' \<mapsto> Date 2023 9 30]"

definition known_floats :: "string \<Rightarrow> fl option" where
  "known_floats = [''3.00'' \<mapsto> Num 3, ''30.00'' \<mapsto> Num 30, ''10.00'' \<mapsto> Num 10, ''2.00'' \<mapsto> Num 2]"

definition pe_page_bad_date :: "raw_pe_row page" where
  "pe_page_bad_date =
     \<lparr>current_text = Some ''3.00'',
      table = Some
        [\<lparr>pe_date_cell = Some ''2023-12-31'', pe_stock_price_cell = Some ''30.00'',
          pe_eps_cell = Some ''2.00'', pe_ratio_cell = Num 15\<rparr>,
         \<lparr>pe_date_cell = Some ''foo'', pe_stock_price_cell = Some ''30.00'',
          pe_eps_cell = Some ''2.00'', pe_ratio_cell = Num 15\<rparr>]\<rparr>"

definition pb_page_bad_date :: "raw_pb_row page" where
  "pb_page_bad_date =
     \<lparr>current_text = Some ''3.00'',
      table = Some
        [\<lparr>pb_date_cell = Some ''2023-12-31'', pb_stock_price_cell = Some ''30.00'',
          pb_book_value_cell = Some ''10.00'', pb_ratio_cell = Some ''3.00''\<rparr>,
         \<lparr>pb_date_cell = Some ''foo'', pb_stock_price_cell = Some ''30.00'',
          pb_book_value_cell = Some ''10.00'', pb_ratio_cell = Some ''3.00''\<rparr>]\<rparr>"

text \<open>
  The arithmetic the examples are evaluated with. Their P/B values, margins and averages
  are small multiples of a power of two, which binary64 holds exactly together with their
  sums, products and means; correct rounding then returns the exact result.
\<close>

definition exact_arithmetic :: arithmetic where
  "exact_arithmetic = \<lparr>product = (\<lambda>a b. a * b), average = (\<lambda>xs. sum_list xs / real (length xs))\<rparr>"

definition hrow :: "string \<Rightarrow> date \<Rightarrow> fl \<Rightarrow> fl \<Rightarrow> ratio_row" where
  "hrow s d pb pe =
     \<lparr>r_date = Some d, r_symbol = Some s, r_name = Some s, r_stock_price = Num 30,
      r_book_value_per_share = Num 10, r_price_to_book_ratio = pb, r_ttm_net_eps = Num 2,
      r_pe_ratio = pe\<rparr>"

definition loaded :: "ratio_row list \<Rightarrow> history_frame" where
  "loaded rows = \<lparr>hf_rows = rows, hf_date_dtype = Object_Dtype, hf_year = None\<rparr>"

definition lenient :: criteria where
  "lenient =
     \<lparr>years_pb_history = 1, max_current_pb_ratio = Num 2, only_positive_pb = True,
      pb_margin_of_safety = Num 1, max_current_pe_ratio = Num 30, years_positive_pe_history = 1,
      pe_margin_of_safety = Num 1\<rparr>"

definition snapshot :: "string \<Rightarrow> fl \<Rightarrow> fl \<Rightarrow> current_row" where
  "snapshot s pb pe = \<lparr>c_symbol = Some s, c_last_update = 1000, c_pb_ratio = pb, c_pe_ratio = pe\<rparr>"

definition example_history :: history_frame where
  "example_history =
     loaded [hrow ''AAA'' (Date 2023 12 31) (Num 1.5) (Num 10),
             hrow ''AAA'' (Date 2022 12 31) (Num 1.5) (Num 10),
             hrow ''AAA'' (Date 2010 12 31) (Num 1.5) (Num 10),
             hrow ''AAA'' (Date 2024 3 31) (Num 1.5) (Num 10),
             hrow ''BBB'' (Date 2020 12 31) (Num 1.5) (Num 10)]"

definition example_snapshot :: "current_row list" where
  "example_snapshot = [snapshot ''AAA'' (Num 1.5) (Num 10), snapshot ''BBB'' (Num 1.5) (Num 10)]"

definition two_years :: "yrow list" where
  "two_years =
     [(hrow ''AAA'' (Date 2023 12 31) (Num 1.5) (Num 10), Some 2023),
      (hrow ''AAA'' (Date 2022 12 31) (Num 1.5) (Num 10), Some 2022)]"

definition nan_latest_history :: history_frame where
  "nan_latest_history =
     loaded [hrow ''XXX'' (Date 2023 12 31) NaN NaN,
             hrow ''XXX'' (Date 2022 12 31) (Num 1.5) (Num 10)]"

definition recent_nan_history :: history_frame where
  "recent_nan_history =
     loaded [hrow ''NNN'' (Date 2023 12 31) NaN (Num 10),
             hrow ''NNN'' (Date 2019 12 31) (Num 0.5) (Num 10)]"

section \<open>Properties of the retry loop\<close>

lemma run_loop_snoc:
  "run_loop r (bs @ [b]) =
     (case run_loop r bs of
        (evs, Stopped) \<Rightarrow> (evs, Stopped)
      | (evs, Polling r') \<Rightarrow> (case run_iteration r' b of (evs', st) \<Rightarrow> (evs @ evs', st)))"
  by (induction bs arbitrary: r) (auto split: prod.splits run_state.splits)

lemma run_loop_counter:
  "run_loop 0 bs = (evs, Polling r) \<Longrightarrow> r = trailing_errors bs \<and> r \<le> max_retries"
proof (induction bs arbitrary: evs r rule: rev_induct)
  case Nil
  then show ?case by (simp add: trailing_errors_def)
next
  case (snoc b bs)
  then show ?case
    by (cases b)
      (auto simp: run_loop_snoc trailing_errors_def Let_def
            split: prod.splits run_state.splits if_splits)
qed

text \<open>
  Claim C8. While the loop is still polling after the batches \<open>bs\<close>, its counter is the
  number of failed batches in a row just behind it, and that number is at most
  \<open>max_retries\<close>. A further failed batch increments the counter and sleeps
  \<open>base_wait_time * 2 ^ retries\<close> seconds with the incremented counter, unless the
  incremented counter exceeds \<open>max_retries\<close>: then the loop logs and stops, with no
  sleep. A further successful batch sets the counter to zero.
\<close>

theorem run_bounded_backoff:
  assumes "run bs = (evs, Polling r)"
  shows "r = trailing_errors bs \<and> r \<le> max_retries \<and>
         run (bs @ [Batch_Ok]) = (evs @ [Poll_Tickers], Polling 0) \<and>
         run (bs @ [Batch_Error]) =
           (if r + 1 > max_retries
            then (evs @ [Poll_Tickers, Log_Polling_Error, Log_Max_Retries], Stopped)
            else (evs @ [Poll_Tickers, Log_Polling_Error,
                         Log_Retrying (base_wait_time * 2 ^ (r + 1)),
                         Sleep (base_wait_time * 2 ^ (r + 1))],
                  Polling (r + 1)))"
proof -
  from assms have h: "run_loop 0 bs = (evs, Polling r)"
    by (simp add: run_def)
  have "r = trailing_errors bs \<and> r \<le> max_retries"
    using run_loop_counter [OF h] .
  moreover have "run (bs @ [Batch_Ok]) = (evs @ [Poll_Tickers], Polling 0)"
    using h by (simp add: run_def run_loop_snoc)
  moreover have "run (bs @ [Batch_Error]) =
           (if r + 1 > max_retries
            then (evs @ [Poll_Tickers, Log_Polling_Error, Log_Max_Retries], Stopped)
            else (evs @ [Poll_Tickers, Log_Polling_Error,
                         Log_Retrying (base_wait_time * 2 ^ (r + 1)),
                         Sleep (base_wait_time * 2 ^ (r + 1))],
                  Polling (r + 1)))"
    using h by (simp add: run_def run_loop_snoc Let_def)
  ultimately show ?thesis by simp
qed

theorem run_bounded_backoff_witness:
  "run [Batch_Ok, Batch_Error, Batch_Error, Batch_Error, Batch_Error, Batch_Error] =
     ([Poll_Tickers,
       Poll_Tickers, Log_Polling_Error, Log_Retrying 10, Sleep 10,
       Poll_Tickers, Log_Polling_Error, Log_Retrying 20, Sleep 20,
       Poll_Tickers, Log_Polling_Error, Log_Retrying 40, Sleep 40,
       Poll_Tickers, Log_Polling_Error, Log_Retrying 80, Sleep 80,
       Poll_Tickers, Log_Polling_Error, Log_Retrying 160, Sleep 160], Polling 5) \<and>
   snd (run ([Batch_Ok, Batch_Error, Batch_Error, Batch_Error, Batch_Error, Batch_Error]
             @ [Batch_Error])) = Stopped \<and>
   snd (run ([Batch_Ok, Batch_Error, Batch_Error, Batch_Error, Batch_Error, Batch_Error]
             @ [Batch_Ok])) = Polling 0"
proof -
  have h: "run [Batch_Ok, Batch_Error, Batch_Error, Batch_Error, Batch_Error, Batch_Error] =
     ([Poll_Tickers,
       Poll_Tickers, Log_Polling_Error, Log_Retrying 10, Sleep 10,
       Poll_Tickers, Log_Polling_Error, Log_Retrying 20, Sleep 20,
       Poll_Tickers, Log_Polling_Error, Log_Retrying 40, Sleep 40,
       Poll_Tickers, Log_Polling_Error, Log_Retrying 80, Sleep 80,
       Poll_Tickers, Log_Polling_Error, Log_Retrying 160, Sleep 160], Polling 5)"
    by (simp add: run_def max_retries_def base_wait_time_def)
  show ?thesis
    using h run_bounded_backoff [OF h] by (simp add: max_retries_def)
qed

section \<open>Properties of the fetchers\<close>

lemma to_datetime_raise_unparseable:
  "Some txt \<in> set cs \<Longrightarrow> to_datetime txt = None \<Longrightarrow> to_datetime_raise to_datetime cs = Inl Value_Error"
proof (induction cs)
  case Nil
  then show ?case by simp
next
  case (Cons c cs)
  show ?case
  proof (cases c)
    case None
    with Cons show ?thesis by auto
  next
    case (Some t)
    with Cons show ?thesis by (cases "to_datetime t") auto
  qed
qed

text \<open>
  Claim C7, on the P/E fetcher: a table row whose date text cannot be parsed makes the
  whole call raise \<open>ValueError\<close>; no rows are returned. (The P/B fetcher, called with
  \<open>errors='coerce'\<close>, drops such a row: \<open>get_pb_ratio_history_drops_unparseable\<close>.)
\<close>

theorem get_pe_ratio_history_unparseable_date:
  assumes "current_value to_float (current_text pg) = Inr v"
      and "table pg = Some df"
      and "r \<in> set df" and "pe_date_cell r = Some txt" and "to_datetime txt = None"
  shows "get_pe_ratio_history to_datetime to_float (Inr pg) = Inl Value_Error"
proof -
  have "Some txt \<in> set (map pe_date_cell df)"
    using assms(3,4) by force
  then have "to_datetime_raise to_datetime (map pe_date_cell df) = Inl Value_Error"
    using assms(5) by (rule to_datetime_raise_unparseable)
  then show ?thesis
    using assms(1,2) by (simp add: get_pe_ratio_history_def)
qed

theorem get_pe_ratio_history_unparseable_date_witness:
  "get_pe_ratio_history known_dates known_floats (Inr pe_page_bad_date) = Inl Value_Error \<and>
   get_pb_ratio_history known_dates known_floats ''AAA'' ''Aaa Corp'' (Inr pb_page_bad_date) =
     Inr ([\<lparr>pb_symbol = ''AAA'', pb_name = ''Aaa Corp'', pb_date = Some (Date 2023 12 31),
            pb_stock_price = Num 30, pb_book_value_per_share = Num 10,
            pb_price_to_book_ratio = Num 3\<rparr>], Num 3)"
proof -
  have "get_pe_ratio_history known_dates known_floats (Inr pe_page_bad_date) = Inl Value_Error"
    using get_pe_ratio_history_unparseable_date
      [of known_floats pe_page_bad_date "Num 3" "the (table pe_page_bad_date)"
          "the (table pe_page_bad_date) ! 1" "''foo''" known_dates]
    by (simp add: pe_page_bad_date_def current_value_def known_floats_def known_dates_def)
  moreover have "get_pb_ratio_history known_dates known_floats ''AAA'' ''Aaa Corp'' (Inr pb_page_bad_date) =
     Inr ([\<lparr>pb_symbol = ''AAA'', pb_name = ''Aaa Corp'', pb_date = Some (Date 2023 12 31),
            pb_stock_price = Num 30, pb_book_value_per_share = Num 10,
            pb_price_to_book_ratio = Num 3\<rparr>], Num 3)"
    by (simp add: get_pb_ratio_history_def pb_page_bad_date_def current_value_def known_floats_def
          known_dates_def to_datetime_coerce_def)
  ultimately show ?thesis by simp
qed

text \<open>
  In the P/B fetcher the rows with an unparseable date have no influence on the call:
  the result is the one of the table without them.
\<close>

lemma get_pb_ratio_history_drops_unparseable:
  "get_pb_ratio_history to_datetime to_float symbol company_name (Inr pg) =
   get_pb_ratio_history to_datetime to_float symbol company_name
     (Inr (pg\<lparr>table := map_option (filter (\<lambda>r. to_datetime_coerce to_datetime (pb_date_cell r) \<noteq> None))
                           (table pg)\<rparr>))"
  by (cases "table pg")
    (simp_all add: get_pb_ratio_history_def filter_map comp_def Let_def split: sum.splits)

section \<open>Properties of the storage\<close>

lemma executemany_result:
  "executemany refuses stmt ts conn =
     (if list_ex refuses ts
      then (Some Database_Error,
            conn\<lparr>working := fold stmt (takeWhile (\<lambda>t. \<not> refuses t) ts) (working conn)\<rparr>)
      else (None, conn\<lparr>working := fold stmt ts (working conn)\<rparr>))"
  by (induction ts arbitrary: conn) auto

lemma map_prepare_tuples: "map prepare_tuples dataframes = dataframes"
  by (induction dataframes) (simp_all add: prepare_tuples_def)

text \<open>
  Claim C10. A store call raises exactly when the server refuses one of its tuples; the
  transaction is then rolled back, so what is committed is what was committed before the
  call, whatever tuples preceded the refused one. A call that returns has committed the
  transaction with every tuple of the call applied in order.
\<close>

theorem store_calls_atomic:
  "(case store_report_dataframes dataframes conn of
      (Some e, conn') \<Rightarrow>
        list_ex (refuses_history conn) (concat dataframes) \<and>
        committed conn' = committed conn \<and> working conn' = committed conn
    | (None, conn') \<Rightarrow>
        \<not> list_ex (refuses_history conn) (concat dataframes) \<and>
        committed conn' = fold insert_history (concat dataframes) (working conn) \<and>
        working conn' = committed conn') \<and>
   (case store_current_ratio_dataframes frames conn of
      (Some e, conn') \<Rightarrow>
        list_ex (refuses_current conn) (concat frames) \<and>
        committed conn' = committed conn \<and> working conn' = committed conn
    | (None, conn') \<Rightarrow>
        \<not> list_ex (refuses_current conn) (concat frames) \<and>
        committed conn' = fold upsert_current (concat frames) (working conn) \<and>
        working conn' = committed conn')"
  by (simp add: store_report_dataframes_def store_current_ratio_dataframes_def
        transaction_def map_prepare_tuples executemany_result commit_def rollback_def Let_def)


theorem store_calls_atomic_witness:
  "fst (store_report_dataframes [long_symbol_frame] strict_server) = Some Database_Error \<and>
   committed (snd (store_report_dataframes [long_symbol_frame] strict_server)) =
     \<lparr>history = [], current_ratios = []\<rparr> \<and>
   fst (store_report_dataframes [take 1 long_symbol_frame] strict_server) = None \<and>
   committed (snd (store_report_dataframes [take 1 long_symbol_frame] strict_server)) =
     \<lparr>history = take 1 long_symbol_frame, current_ratios = []\<rparr>"
proof -
  have bad: "fst (store_report_dataframes [long_symbol_frame] strict_server) = Some Database_Error"
    by (simp add: store_report_dataframes_def transaction_def prepare_tuples_def
          strict_server_def long_symbol_frame_def)
  have good: "fst (store_report_dataframes [take 1 long_symbol_frame] strict_server) = None"
    by (simp add: store_report_dataframes_def transaction_def prepare_tuples_def
          strict_server_def long_symbol_frame_def)
  have "committed (snd (store_report_dataframes [long_symbol_frame] strict_server)) =
          committed strict_server"
    using bad store_calls_atomic [where dataframes = "[long_symbol_frame]" and conn = strict_server
        and frames = "[]"]
    by (cases "store_report_dataframes [long_symbol_frame] strict_server") auto
  moreover have "committed (snd (store_report_dataframes [take 1 long_symbol_frame] strict_server)) =
          fold insert_history (take 1 long_symbol_frame) (working strict_server)"
    using good store_calls_atomic [where dataframes = "[take 1 long_symbol_frame]"
        and conn = strict_server and frames = "[]"]
    by (cases "store_report_dataframes [take 1 long_symbol_frame] strict_server") auto
  ultimately show ?thesis
    using bad good
    by (simp add: strict_server_def long_symbol_frame_def insert_history_def adapt_text_def
          history_conflict_def)
qed

section \<open>Properties of one batch\<close>

lemmas poller_defs =
  poll_tickers_def poll_ticker_def no_locals_def concat_frames_def sort_values_date_def
  merged_row_def store_report_dataframes_def store_current_ratio_dataframes_def transaction_def
  prepare_tuples_def commit_def rollback_def insert_history_def adapt_text_def upsert_current_def
  history_conflict_def current_conflict_def

lemmas example_defs =
  flaky_api_def ticker_a_def ticker_b_def ticker_c_def empty_database_def pb_page_of_def pe_page_a_def

text \<open>
  Claim C6. When the P/B fetch of a ticker raises, the loop logs a warning and goes on to
  the next ticker from the same state: no P/E fetch, no store call, and no \<open>Do_Sleep\<close>
  either, so the inter-request delay is not applied on this path.
\<close>

theorem poll_tickers_pb_failure_skips:
  assumes "pb_ratio_history a r = Inl e"
  shows "poll_loop a (r # rs) (l, database) =
           (case poll_loop a rs (l, database) of
              (evs, rest) \<Rightarrow> (Call_PB (t_symbol r) # Warn_PB_Failed (t_url r) # evs, rest))"
  using assms by (simp add: poll_ticker_def split: prod.splits)

theorem poll_tickers_pb_failure_skips_witness:
  "pb_ratio_history (flaky_api [ticker_c]) ticker_c = Inl Request_Error \<and>
   poll_tickers (flaky_api [ticker_c]) empty_database =
     ([Debug_Fetching_Tickers, Debug_Polling_Started 1, Call_PB ''CCC'', Warn_PB_Failed ''CCC/ccc''],
      Inr (), empty_database)"
proof -
  have h: "pb_ratio_history (flaky_api [ticker_c]) ticker_c = Inl Request_Error"
    by (simp add: flaky_api_def ticker_c_def)
  show ?thesis
    using h poll_tickers_pb_failure_skips [OF h, of "[]" no_locals empty_database]
    by (simp add: poll_tickers_def flaky_api_def ticker_c_def)
qed

text \<open>The sibling path, a failed P/E fetch, does sleep.\<close>

lemma poll_ticker_pe_failure_sleeps:
  assumes "pb_ratio_history a r = Inr (pb_df, pb_now)" and "pe_ratio_history a r = Inl e"
  shows "\<exists>evs. fst (poll_ticker a r (l, database)) =
           [Call_PB (t_symbol r), Debug_Fetched_PB (t_symbol r) (length pb_df), Do_Sleep,
            Call_PE (t_symbol r), Warn_PE_Failed (t_url r), Do_Sleep] @ evs"
  using assms by (auto simp: poll_ticker_def Let_def split: prod.splits option.splits sum.splits)

text \<open>
  The merge itself is as the specification has it, for frames with one row per date: a
  P/B row on a date with no P/E row is in the merged frame, with its P/B cells and with
  both P/E cells missing.
\<close>

lemma set_sort_values_date [simp]: "set (sort_values_date date_of asc rows) = set rows"
  by (auto simp: sort_values_date_def Let_def)

lemma find_distinct_key:
  "distinct (map key xs) \<Longrightarrow> x \<in> set xs \<Longrightarrow> find (\<lambda>y. key y = key x) xs = Some x"
  by (induction xs) (auto simp: image_iff)

lemma find_absent_key: "k \<notin> set (map key xs) \<Longrightarrow> find (\<lambda>y. key y = k) xs = None"
  by (induction xs) auto

lemma concat_frames_pb_only:
  assumes "distinct (map pb_date pb)" and "distinct (map pe_date pe)"
    and "p \<in> set pb" and "pb_date p \<notin> set (map pe_date pe)"
  shows "\<exists>merged. concat_frames repeated pb pe = Inr merged \<and>
           merged_row (pb_date p) (Some p) None \<in> set merged"
proof -
  let ?merged = "sort_values_date r_date False
              (map (\<lambda>d. merged_row d (find (\<lambda>p. pb_date p = d) pb) (find (\<lambda>q. pe_date q = d) pe))
                 (map pb_date pb @ filter (\<lambda>d. d \<notin> set (map pb_date pb)) (map pe_date pe)))"
  have m: "concat_frames repeated pb pe = Inr ?merged"
    using assms(1,2) by (simp add: concat_frames_def Let_def)
  have "find (\<lambda>y. pb_date y = pb_date p) pb = Some p"
    using assms(1,3) by (rule find_distinct_key)
  moreover have "find (\<lambda>q. pe_date q = pb_date p) pe = None"
    using assms(4) by (rule find_absent_key)
  ultimately have "merged_row (pb_date p) (find (\<lambda>y. pb_date y = pb_date p) pb)
                     (find (\<lambda>q. pe_date q = pb_date p) pe) = merged_row (pb_date p) (Some p) None"
    by simp
  moreover have "pb_date p \<in> set (map pb_date pb)"
    using assms(3) by simp
  ultimately have "merged_row (pb_date p) (Some p) None \<in> set ?merged"
    by (force simp: image_iff)
  with m show ?thesis by blast
qed

lemma merged_row_pb_only:
  "r_pe_ratio (merged_row d (Some p) None) = NaN \<and> r_ttm_net_eps (merged_row d (Some p) None) = NaN \<and>
   r_date (merged_row d (Some p) None) = d \<and> r_symbol (merged_row d (Some p) None) = Some (pb_symbol p) \<and>
   r_price_to_book_ratio (merged_row d (Some p) None) = pb_price_to_book_ratio p"
  by (simp add: merged_row_def)

text \<open>
  Claim C2, evaluated. In the batch AAA, BBB the P/E fetch fails for BBB: the rows stored
  for BBB carry the trailing EPS and P/E of AAA, and its current P/E is the one of AAA,
  because \<open>pe_history_df\<close> and \<open>current_pe\<close> still hold what the previous ticker
  assigned. In the batch BBB alone the variables are unbound: \<open>UnboundLocalError\<close>
  leaves \<open>poll_tickers\<close> and nothing is stored.
\<close>

theorem poll_tickers_stale_pe:
  "(case poll_tickers (flaky_api [ticker_a, ticker_b]) empty_database of
      (evs, res, database) \<Rightarrow> (res, committed database)) =
     (Inr (),
      \<lparr>history =
         [\<lparr>r_date = Some (Date 2023 12 31), r_symbol = Some ''AAA'',
           r_name = Some ''Aaa Corp'', r_stock_price = Num 30,
           r_book_value_per_share = Num 10, r_price_to_book_ratio = Num 3,
           r_ttm_net_eps = Num 2, r_pe_ratio = Num 15\<rparr>,
          \<lparr>r_date = Some (Date 2023 12 31), r_symbol = Some ''BBB'',
           r_name = Some ''Bbb Inc'', r_stock_price = Num 30,
           r_book_value_per_share = Num 10, r_price_to_book_ratio = Num 3,
           r_ttm_net_eps = Num 2, r_pe_ratio = Num 15\<rparr>],
       current_ratios =
         [\<lparr>c_symbol = Some ''AAA'', c_last_update = 1000, c_pb_ratio = Num 3, c_pe_ratio = Num 16\<rparr>,
          \<lparr>c_symbol = Some ''BBB'', c_last_update = 1000, c_pb_ratio = Num 3, c_pe_ratio = Num 16\<rparr>]\<rparr>) \<and>
   (case poll_tickers (flaky_api [ticker_b]) empty_database of
      (evs, res, database) \<Rightarrow> (res, committed database)) =
     (Inl (Unbound_Local ''current_pe''), \<lparr>history = [], current_ratios = []\<rparr>)"
  by (simp add: poller_defs example_defs)

section \<open>Properties of the screener\<close>

lemma set_unique [simp]: "set (unique xs) = set xs"
  by (simp add: unique_def)

lemma set_group_keys: "set (group_keys df) = {s. \<exists>r y. (r, y) \<in> set df \<and> r_symbol r = Some s}"
  by (auto simp: group_keys_def split: option.splits)

lemma get_group_nonempty: "s \<in> set (group_keys df) \<Longrightarrow> get_group s df \<noteq> []"
  by (auto simp: set_group_keys get_group_def filter_empty_conv)

lemma stock_meets_criteria_total:
  "grp \<noteq> [] \<Longrightarrow> \<exists>b. stock_meets_criteria ar current_df crit grp = Inr b"
  by (simp add: stock_meets_criteria_def Let_def split: prod.splits)

lemma filter_groups_total:
  "(\<And>s. s \<in> set ss \<Longrightarrow> \<exists>b. func (get_group s df) = Inr b) \<Longrightarrow>
   filter_groups func df ss = Inr (filter (\<lambda>s. func (get_group s df) = Inr True) ss)"
proof (induction ss)
  case Nil
  then show ?case by simp
next
  case (Cons s ss)
  then obtain b where "func (get_group s df) = Inr b" by auto
  moreover have "filter_groups func df ss = Inr (filter (\<lambda>s. func (get_group s df) = Inr True) ss)"
    using Cons by simp
  ultimately show ?case by simp
qed

lemma screened_symbols_result:
  "screened_symbols ar current_df crit df =
     Inr (filter (\<lambda>s. stock_meets_criteria ar current_df crit (get_group s df) = Inr True) (group_keys df))"
  unfolding screened_symbols_def
  by (rule filter_groups_total) (simp add: get_group_nonempty stock_meets_criteria_total)

lemma stock_meets_criteria_empty: "stock_meets_criteria ar current_df crit [] \<noteq> Inr True"
  by (simp add: stock_meets_criteria_def)

lemma windowed_history_columns [simp]:
  "windowed_history now_year (df\<lparr>hf_year := ys\<rparr>) = windowed_history now_year df"
  "windowed_history now_year (df\<lparr>hf_date_dtype := t\<rparr>) = windowed_history now_year df"
  by (simp_all add: windowed_history_def)

lemma screen_stocks_unfold:
  "screen_stocks ar now_year df0 current_df crit =
     (df0\<lparr>hf_date_dtype := Datetime64, hf_year := Some (year_column (hf_rows df0))\<rparr>,
      case screened_symbols ar current_df crit (windowed_history now_year df0) of
        Inl e \<Rightarrow> Inl e
      | Inr symbols \<Rightarrow>
          Inr (filter (\<lambda>(r, y). case r_symbol r of None \<Rightarrow> False | Some s \<Rightarrow> s \<in> set symbols)
                 (windowed_history now_year df0),
               filter (\<lambda>c. case c_symbol c of None \<Rightarrow> False | Some s \<Rightarrow> s \<in> set symbols)
                 current_df))"
  by (simp add: screen_stocks_def Let_def split: sum.splits)

lemma screen_stocks_result:
  "snd (screen_stocks ar now_year df0 current_df crit) =
     Inr (filter (\<lambda>(r, y). case r_symbol r of None \<Rightarrow> False
                   | Some s \<Rightarrow> stock_meets_criteria ar current_df crit
                                 (get_group s (windowed_history now_year df0)) = Inr True)
            (windowed_history now_year df0),
          filter (\<lambda>c. case c_symbol c of None \<Rightarrow> False
                   | Some s \<Rightarrow> stock_meets_criteria ar current_df crit
                                 (get_group s (windowed_history now_year df0)) = Inr True)
            current_df)"
proof -
  let ?W = "windowed_history now_year df0"
  let ?ok = "\<lambda>s. stock_meets_criteria ar current_df crit (get_group s ?W) = Inr True"
  have keys: "s \<in> set (filter ?ok (group_keys ?W)) \<longleftrightarrow> ?ok s" for s
  proof
    assume "s \<in> set (filter ?ok (group_keys ?W))"
    then show "?ok s" by simp
  next
    assume ok: "?ok s"
    then have "get_group s ?W \<noteq> []"
      using stock_meets_criteria_empty by metis
    then have "s \<in> set (group_keys ?W)"
      by (auto simp: set_group_keys get_group_def filter_empty_conv)
    with ok show "s \<in> set (filter ?ok (group_keys ?W))" by simp
  qed
  have "filter (\<lambda>(r, y). case r_symbol r of None \<Rightarrow> False
                           | Some s \<Rightarrow> s \<in> set (filter ?ok (group_keys ?W))) ?W =
        filter (\<lambda>(r, y). case r_symbol r of None \<Rightarrow> False | Some s \<Rightarrow> ?ok s) ?W"
    by (rule filter_cong) (auto simp only: keys split: option.splits)
  moreover have "filter (\<lambda>c. case c_symbol c of None \<Rightarrow> False
                           | Some s \<Rightarrow> s \<in> set (filter ?ok (group_keys ?W))) current_df =
        filter (\<lambda>c. case c_symbol c of None \<Rightarrow> False | Some s \<Rightarrow> ?ok s) current_df"
    by (rule filter_cong) (auto simp only: keys split: option.splits)
  ultimately show ?thesis
    by (simp only: screen_stocks_unfold screened_symbols_result snd_conv sum.case)
qed

lemma max_year_upper: "Some v \<in> set ys \<Longrightarrow> \<exists>m. max_year ys = Some m \<and> v \<le> m"
proof (induction ys rule: max_year.induct)
  case 1
  then show ?case by simp
next
  case (2 ys)
  then show ?case by simp
next
  case (3 y ys)
  then show ?case by (cases "max_year ys") auto
qed

lemma max_year_mem: "max_year ys = Some m \<Longrightarrow> Some m \<in> set ys"
proof (induction ys arbitrary: m rule: max_year.induct)
  case 1
  then show ?case by simp
next
  case (2 ys)
  then show ?case by simp
next
  case (3 y ys)
  then show ?case by (cases "max_year ys") (auto simp: max_def split: if_splits)
qed

lemma zip_year_column:
  "zip rows (year_column rows) = map (\<lambda>r. (r, map_option d_year (r_date r))) rows"
  by (induction rows) (simp_all add: year_column_def)

lemma window_subset: "set (window now_year df) \<subseteq> set df"
  by (auto simp: window_def not_current_year_def Let_def)

lemma year_of_windowed_row:
  assumes "(r, y) \<in> set (windowed_history now_year df)"
  shows "y = map_option d_year (r_date r) \<and> r \<in> set (hf_rows df)"
proof -
  from assms have "(r, y) \<in> set (map (\<lambda>r. (r, map_option d_year (r_date r))) (hf_rows df))"
    using window_subset by (fastforce simp: windowed_history_def zip_year_column)
  then show ?thesis by auto
qed

lemma window_bounds:
  assumes "(r, y) \<in> set (window now_year df)"
  shows "\<exists>v m. y = Some v \<and> max_year (map snd (not_current_year now_year df)) = Some m \<and>
               v \<noteq> now_year \<and> m - 10 < v \<and> v \<le> m"
proof -
  let ?df1 = "not_current_year now_year df"
  from assms have in1: "(r, y) \<in> set ?df1"
    and cond: "(case (y, max_year (map snd ?df1)) of (Some v, Some m) \<Rightarrow> v > m - 10 | _ \<Rightarrow> False)"
    by (auto simp: window_def Let_def)
  from cond obtain v m where y: "y = Some v" and m: "max_year (map snd ?df1) = Some m" and gt: "m - 10 < v"
    by (auto split: option.splits)
  from in1 y have "Some v \<in> set (map snd ?df1)" by force
  from max_year_upper [OF this] m have "v \<le> m" by simp
  moreover from in1 y have "v \<noteq> now_year"
    by (auto simp: not_current_year_def)
  ultimately show ?thesis using y m gt by simp
qed

lemma stock_meets_criteria_depth:
  "nunique_years grp < years_pb_history crit \<Longrightarrow> stock_meets_criteria ar current_df crit grp \<noteq> Inr True"
  by (simp add: stock_meets_criteria_def Let_def split: prod.splits)

lemma windowed_years:
  assumes "(r, y) \<in> set (windowed_history now_year df)"
  shows "\<exists>v Y. r \<in> set (hf_rows df) \<and> map_option d_year (r_date r) = Some v \<and> y = Some v \<and>
           v \<noteq> now_year \<and>
           (\<exists>r' \<in> set (hf_rows df). map_option d_year (r_date r') = Some Y) \<and> Y \<noteq> now_year \<and>
           (\<forall>r' \<in> set (hf_rows df). \<forall>u. map_option d_year (r_date r') = Some u \<longrightarrow> u \<noteq> now_year \<longrightarrow> u \<le> Y) \<and>
           Y - 10 < v \<and> v \<le> Y"
proof -
  let ?all = "map (\<lambda>r. (r, map_option d_year (r_date r))) (hf_rows df)"
  let ?df1 = "not_current_year now_year ?all"
  from assms have w: "(r, y) \<in> set (window now_year ?all)"
    by (simp add: windowed_history_def zip_year_column)
  from window_bounds [OF w] obtain v m where
    y: "y = Some v" and m: "max_year (map snd ?df1) = Some m" and
    v: "v \<noteq> now_year" "m - 10 < v" "v \<le> m"
    by blast
  from year_of_windowed_row [OF assms] y have r: "r \<in> set (hf_rows df)" "map_option d_year (r_date r) = Some v"
    by auto
  from max_year_mem [OF m] have "Some m \<in> snd ` set ?df1" by simp
  then obtain r0 where r0: "(r0, Some m) \<in> set ?df1" by force
  then have "r0 \<in> set (hf_rows df)" "map_option d_year (r_date r0) = Some m" "m \<noteq> now_year"
    by (cases "r_date r0"; auto simp: not_current_year_def)+
  then have ex: "(\<exists>r' \<in> set (hf_rows df). map_option d_year (r_date r') = Some m) \<and> m \<noteq> now_year"
    by blast
  have top: "u \<le> m" if "r' \<in> set (hf_rows df)" "map_option d_year (r_date r') = Some u" "u \<noteq> now_year" for r' u
  proof -
    from that have "(r', Some u) \<in> set ?df1"
      by (auto simp: not_current_year_def)
    then have "Some u \<in> set (map snd ?df1)" by force
    from max_year_upper [OF this] m show ?thesis by simp
  qed
  show ?thesis
    using r y v ex top by blast
qed

lemma windowed_distinct_years: "card (snd ` set (windowed_history now_year df)) \<le> 10"
proof (cases "windowed_history now_year df")
  case Nil
  then show ?thesis by simp
next
  case (Cons p ps)
  obtain r y where p: "p = (r, y)" by (cases p)
  with Cons have "(r, y) \<in> set (windowed_history now_year df)" by simp
  from windowed_years [OF this] obtain Y where
    Y: "\<forall>r' \<in> set (hf_rows df). \<forall>u. map_option d_year (r_date r') = Some u \<longrightarrow> u \<noteq> now_year \<longrightarrow> u \<le> Y"
       "\<exists>r' \<in> set (hf_rows df). map_option d_year (r_date r') = Some Y" "Y \<noteq> now_year"
    by blast
  have "snd ` set (windowed_history now_year df) \<subseteq> Some ` {Y - 9 .. Y}"
  proof
    fix y' assume "y' \<in> snd ` set (windowed_history now_year df)"
    then obtain r' where "(r', y') \<in> set (windowed_history now_year df)" by auto
    from windowed_years [OF this] obtain v Y' where
      v: "y' = Some v" "Y' - 10 < v" "v \<le> Y'" and
      Y': "\<forall>r' \<in> set (hf_rows df). \<forall>u. map_option d_year (r_date r') = Some u \<longrightarrow> u \<noteq> now_year \<longrightarrow> u \<le> Y'"
          "\<exists>r' \<in> set (hf_rows df). map_option d_year (r_date r') = Some Y'" "Y' \<noteq> now_year"
      by blast
    from Y Y' have "Y' = Y" by (meson order_antisym)
    with v show "y' \<in> Some ` {Y - 9 .. Y}" by auto
  qed
  then have "card (snd ` set (windowed_history now_year df)) \<le> card (Some ` {Y - 9 .. Y})"
    by (intro card_mono) auto
  also have "\<dots> \<le> card {Y - 9 .. Y}" by (rule card_image_le) simp
  also have "\<dots> = 10" by simp
  finally show ?thesis .
qed

text \<open>
  Claim C4. The two frames that \<open>screen_stocks\<close> returns are the rows of the windowed
  history, and of the snapshot, whose symbol passes \<open>stock_meets_criteria\<close> on its rows
  of the windowed history. The windowed history holds at most ten distinct years; each
  of its rows is a row of the input whose year \<open>v\<close> is not the current year and lies in
  \<open>Y - 10 < v \<le> Y\<close>, where \<open>Y\<close> is the greatest year of the input other than the
  current year.
\<close>

theorem screen_stocks_window:
  "snd (screen_stocks ar now_year df current_df crit) =
     Inr (filter (\<lambda>(r, y). case r_symbol r of None \<Rightarrow> False
                   | Some s \<Rightarrow> stock_meets_criteria ar current_df crit
                                 (get_group s (windowed_history now_year df)) = Inr True)
            (windowed_history now_year df),
          filter (\<lambda>c. case c_symbol c of None \<Rightarrow> False
                   | Some s \<Rightarrow> stock_meets_criteria ar current_df crit
                                 (get_group s (windowed_history now_year df)) = Inr True)
            current_df) \<and>
   card (snd ` set (windowed_history now_year df)) \<le> 10 \<and>
   (\<forall>(r, y) \<in> set (windowed_history now_year df).
      \<exists>v Y. r \<in> set (hf_rows df) \<and> map_option d_year (r_date r) = Some v \<and> y = Some v \<and>
        v \<noteq> now_year \<and>
        (\<exists>r' \<in> set (hf_rows df). map_option d_year (r_date r') = Some Y) \<and> Y \<noteq> now_year \<and>
        (\<forall>r' \<in> set (hf_rows df). \<forall>u. map_option d_year (r_date r') = Some u \<longrightarrow> u \<noteq> now_year \<longrightarrow> u \<le> Y) \<and>
        Y - 10 < v \<and> v \<le> Y)"
  using screen_stocks_result [of ar now_year df current_df crit]
    windowed_distinct_years [of now_year df] windowed_years [of _ _ now_year df]
  by blast

text \<open>
  Claim C5. A symbol whose rows in the windowed history span fewer distinct years than
  \<open>years_pb_history\<close>, or that has no row there at all, has no row in either frame that
  \<open>screen_stocks\<close> returns, whatever the other criteria and the snapshot are; and
  \<open>screen_stocks\<close> does return.
\<close>

theorem screen_stocks_history_depth:
  assumes "nunique_years (get_group s (windowed_history now_year df)) < years_pb_history crit \<or>
           get_group s (windowed_history now_year df) = []"
  shows "\<exists>filtered_df filtered_current_df.
           snd (screen_stocks ar now_year df current_df crit) = Inr (filtered_df, filtered_current_df) \<and>
           (\<forall>(r, y) \<in> set filtered_df. r_symbol r \<noteq> Some s) \<and>
           (\<forall>c \<in> set filtered_current_df. c_symbol c \<noteq> Some s)"
proof -
  from assms have "stock_meets_criteria ar current_df crit (get_group s (windowed_history now_year df)) \<noteq> Inr True"
    using stock_meets_criteria_depth stock_meets_criteria_empty by metis
  then show ?thesis
    by (auto simp: screen_stocks_result)
qed

lemmas screener_defs =
  screen_stocks_def windowed_history_def year_column_def window_def not_current_year_def
  screened_symbols_def group_keys_def unique_def get_group_def stock_meets_criteria_def
  nunique_years_def latest_pb_ratio_def latest_pe_ratio_def latest_row_def current_ratios_row_def
  calculate_avg_pb_ratios_def sort_values_date_def mean_def py_min_def fgt_def fge_def
  pe_ratios_def ordinal_def Let_def

lemmas screener_example_defs =
  hrow_def loaded_def lenient_def snapshot_def example_history_def example_snapshot_def
  exact_arithmetic_def

theorem screen_stocks_window_witness:
  "map snd (windowed_history 2024 example_history) = [Some 2023, Some 2022, Some 2020] \<and>
   card (snd ` set (windowed_history 2024 example_history)) \<le> 10 \<and>
   snd (screen_stocks exact_arithmetic 2024 example_history example_snapshot lenient) =
     Inr (windowed_history 2024 example_history, example_snapshot)"
proof -
  have "map snd (windowed_history 2024 example_history) = [Some 2023, Some 2022, Some 2020]"
    by (simp add: screener_defs screener_example_defs)
  moreover have "snd (screen_stocks exact_arithmetic 2024 example_history example_snapshot lenient) =
     Inr (windowed_history 2024 example_history, example_snapshot)"
    by (simp add: screener_defs screener_example_defs)
  moreover have "card (snd ` set (windowed_history 2024 example_history)) \<le> 10"
    using screen_stocks_window [of exact_arithmetic 2024 example_history example_snapshot lenient] by blast
  ultimately show ?thesis by simp
qed

theorem screen_stocks_history_depth_witness:
  "nunique_years (get_group ''BBB'' (windowed_history 2024 example_history)) = 1 \<and>
   years_pb_history (lenient\<lparr>years_pb_history := 2\<rparr>) = 2 \<and>
   snd (screen_stocks exact_arithmetic 2024 example_history example_snapshot (lenient\<lparr>years_pb_history := 2\<rparr>)) =
     Inr ([(hrow ''AAA'' (Date 2023 12 31) (Num 1.5) (Num 10), Some 2023),
           (hrow ''AAA'' (Date 2022 12 31) (Num 1.5) (Num 10), Some 2022)],
          [snapshot ''AAA'' (Num 1.5) (Num 10)])"
proof -
  have n: "nunique_years (get_group ''BBB'' (windowed_history 2024 example_history)) = 1"
    by (simp add: screener_defs screener_example_defs)
  then have h: "nunique_years (get_group ''BBB'' (windowed_history 2024 example_history))
                  < years_pb_history (lenient\<lparr>years_pb_history := 2\<rparr>) \<or>
                get_group ''BBB'' (windowed_history 2024 example_history) = []"
    by simp
  have "snd (screen_stocks exact_arithmetic 2024 example_history example_snapshot (lenient\<lparr>years_pb_history := 2\<rparr>)) =
     Inr ([(hrow ''AAA'' (Date 2023 12 31) (Num 1.5) (Num 10), Some 2023),
           (hrow ''AAA'' (Date 2022 12 31) (Num 1.5) (Num 10), Some 2022)],
          [snapshot ''AAA'' (Num 1.5) (Num 10)])"
    using screen_stocks_history_depth [OF h, of exact_arithmetic example_snapshot]
    by (simp add: screener_defs screener_example_defs)
  with n show ?thesis by simp
qed

lemma py_min_Num: "py_min (Num a) (Num b) = Num (min a b)"
  by (simp add: py_min_def min_def)

text \<open>
  On numbers the two kinds of check are as the specification has them: the symbol
  qualifies exactly when all six checks hold, with the current P/B and the current P/E
  strictly below their ceilings and the current P/B at most the threshold that line 87
  computes, the float product of the margin and the lower average.
\<close>

lemma stock_meets_criteria_on_numbers:
  assumes "grp \<noteq> []"
    and "latest_pb_ratio current_df grp = Num pb"
    and "max_current_pb_ratio crit = Num pb_ceiling"
    and "calculate_avg_pb_ratios ar grp = (grp1, avg_3_year, avg_max_year, years)"
    and "fmul ar (pb_margin_of_safety crit) (py_min avg_3_year avg_max_year) = Num threshold"
    and "latest_pe_ratio current_df (sort_values_date (r_date \<circ> fst) False grp1) = Num pe"
    and "max_current_pe_ratio crit = Num pe_ceiling"
  shows "stock_meets_criteria ar current_df crit grp =
           Inr (\<not> nunique_years grp < years_pb_history crit \<and>
                \<not> (only_positive_pb crit \<and>
                   list_ex (\<lambda>(r, y). fle (r_price_to_book_ratio r) (Num 0)) grp) \<and>
                pb < pb_ceiling \<and>
                pb \<le> threshold \<and>
                \<not> int (length (filter (\<lambda>v. fgt v (Num 0))
                                 (pe_ratios (sort_values_date (r_date \<circ> fst) False grp1))))
                     < years_positive_pe_history crit \<and>
                pe < pe_ceiling)"
  using assms
  by (simp add: stock_meets_criteria_def Let_def fgt_def fge_def not_less not_le)

lemma stock_meets_criteria_boundaries:
  "stock_meets_criteria exact_arithmetic example_snapshot lenient two_years = Inr True \<and>
   stock_meets_criteria exact_arithmetic example_snapshot
     (lenient\<lparr>max_current_pb_ratio := Num 1.5\<rparr>) two_years = Inr False \<and>
   stock_meets_criteria exact_arithmetic example_snapshot
     (lenient\<lparr>max_current_pe_ratio := Num 10\<rparr>) two_years = Inr False"
  by (simp add: two_years_def screener_defs screener_example_defs)

text \<open>
  Claim C3, evaluated. The symbol XXX is not in the snapshot, so its current P/B and P/E
  are those of its latest row, which has neither: both are NaN. \<open>NaN >= ceiling\<close> is
  false at lines 82 and 98 (and \<open>NaN > threshold\<close> at line 87), so no check clears
  \<open>valid\<close> and XXX is returned as qualifying, although its current P/B is not below
  the P/B ceiling and its current P/E is not below the P/E ceiling. This holds for every
  arithmetic.
\<close>

theorem stock_meets_criteria_nan_current_passes:
  "windowed_history 2024 nan_latest_history =
     [(hrow ''XXX'' (Date 2023 12 31) NaN NaN, Some 2023),
      (hrow ''XXX'' (Date 2022 12 31) (Num 1.5) (Num 10), Some 2022)] \<and>
   latest_pb_ratio example_snapshot (windowed_history 2024 nan_latest_history) = NaN \<and>
   latest_pe_ratio example_snapshot (windowed_history 2024 nan_latest_history) = NaN \<and>
   \<not> flt (latest_pb_ratio example_snapshot (windowed_history 2024 nan_latest_history))
          (max_current_pb_ratio lenient) \<and>
   \<not> flt (latest_pe_ratio example_snapshot (windowed_history 2024 nan_latest_history))
          (max_current_pe_ratio lenient) \<and>
   stock_meets_criteria ar example_snapshot lenient (windowed_history 2024 nan_latest_history) =
     Inr True \<and>
   snd (screen_stocks ar 2024 nan_latest_history example_snapshot lenient) =
     Inr (windowed_history 2024 nan_latest_history, [])"
  by (simp add: nan_latest_history_def screener_defs screener_example_defs)

lemma margin_check_nan: "\<not> fgt latest (fmul ar margin (py_min NaN avg_max_year))"
  by (cases margin) (simp_all add: fgt_def py_min_def)

text \<open>
  Claim C1, evaluated. The symbol NNN has a row in 2023 without a P/B and a row in 2019
  with P/B 0.5, so its three-year average is NaN and its average over the window is the
  mean of 0.5 alone. With a current P/B of 1.9 and a margin of 1 it is returned as
  qualifying: the product with \<open>min(NaN, 0.5)\<close> is NaN and \<open>1.9 > NaN\<close> is false, so
  the margin check does not clear \<open>valid\<close>. This holds for every arithmetic.
\<close>

theorem screen_stocks_nan_average_qualifies:
  "snd (snd (calculate_avg_pb_ratios ar (windowed_history 2024 recent_nan_history))) =
     (Num (average ar [0.5]), Some 5) \<and>
   fst (snd (calculate_avg_pb_ratios ar (windowed_history 2024 recent_nan_history))) = NaN \<and>
   snd (screen_stocks ar 2024 recent_nan_history [snapshot ''NNN'' (Num 1.9) (Num 10)] lenient) =
     Inr (windowed_history 2024 recent_nan_history, [snapshot ''NNN'' (Num 1.9) (Num 10)]) \<and>
   windowed_history 2024 recent_nan_history =
     [(hrow ''NNN'' (Date 2023 12 31) NaN (Num 10), Some 2023),
      (hrow ''NNN'' (Date 2019 12 31) (Num 0.5) (Num 10), Some 2019)]"
  by (simp add: recent_nan_history_def screener_defs screener_example_defs)

lemma mset_sort_values_date: "mset (sort_values_date date_of asc rows) = mset rows"
  by (simp add: sort_values_date_def Let_def)

lemma sort_values_date_idem:
  "sort_values_date date_of True (sort_values_date date_of True rows) =
   sort_values_date date_of True rows"
proof -
  let ?k = "\<lambda>r. ordinal (the (date_of r))"
  let ?S = "sort_key ?k (filter (\<lambda>r. date_of r \<noteq> None) rows)"
  let ?U = "filter (\<lambda>r. date_of r = None) rows"
  have "filter (\<lambda>r. date_of r \<noteq> None) ?S = ?S"
    by (rule filter_True) simp
  moreover have "filter (\<lambda>r. date_of r \<noteq> None) ?U = []"
    by (auto simp: filter_empty_conv)
  moreover have "filter (\<lambda>r. date_of r = None) ?S = []"
    by (simp add: filter_empty_conv)
  moreover have "filter (\<lambda>r. date_of r = None) ?U = ?U"
    by simp
  moreover have "sort_key ?k ?S = ?S"
    by (rule sort_key_id_if_sorted) simp
  ultimately show ?thesis
    by (simp add: sort_values_date_def)
qed

lemma windowed_history_written [simp]:
  "windowed_history now_year (df\<lparr>hf_date_dtype := t, hf_year := ys\<rparr>) = windowed_history now_year df"
  by (simp add: windowed_history_def)

lemma calculate_avg_pb_ratios_again:
  "calculate_avg_pb_ratios ar (fst (calculate_avg_pb_ratios ar stock_data)) = calculate_avg_pb_ratios ar stock_data"
  by (simp add: calculate_avg_pb_ratios_def Let_def sort_values_date_idem)

text \<open>
  Claim C9 fails as stated: after the call the caller's history frame has a \<open>year\<close>
  column and a converted \<open>date\<close> column that it did not have before, and
  \<open>calculate_avg_pb_ratios\<close> hands back its argument in another order.
\<close>

theorem screen_stocks_writes_frame:
  "fst (screen_stocks exact_arithmetic 2024 example_history example_snapshot lenient) \<noteq> example_history \<and>
   fst (calculate_avg_pb_ratios exact_arithmetic two_years) \<noteq> two_years"
  by (simp add: two_years_def screener_defs screener_example_defs)

text \<open>
  Claim C9, amended. \<open>screen_stocks\<close> leaves the rows of the caller's history frame as
  they are; what it writes to that frame is the dtype of the \<open>date\<close> column and the
  \<open>year\<close> column, both determined by the rows. Calling it again on the frame it left
  returns the same results and the same frame. \<open>calculate_avg_pb_ratios\<close> keeps the
  rows of its argument but sorts them by date in place; called again on the sorted frame it
  returns the same. The snapshot is only read: no operation of the model writes to it.
\<close>

theorem screen_stocks_frame_effect:
  "fst (screen_stocks ar now_year df current_df crit) =
     df\<lparr>hf_date_dtype := Datetime64, hf_year := Some (year_column (hf_rows df))\<rparr> \<and>
   hf_rows (fst (screen_stocks ar now_year df current_df crit)) = hf_rows df \<and>
   screen_stocks ar now_year (fst (screen_stocks ar now_year df current_df crit)) current_df crit =
     screen_stocks ar now_year df current_df crit \<and>
   mset (fst (calculate_avg_pb_ratios ar stock_data)) = mset stock_data \<and>
   calculate_avg_pb_ratios ar (fst (calculate_avg_pb_ratios ar stock_data)) =
     calculate_avg_pb_ratios ar stock_data"
proof -
  have "screen_stocks ar now_year (df\<lparr>hf_date_dtype := Datetime64, hf_year := Some (year_column (hf_rows df))\<rparr>)
          current_df crit = screen_stocks ar now_year df current_df crit"
    by (simp add: screen_stocks_unfold split: sum.splits)
  moreover have "mset (fst (calculate_avg_pb_ratios ar stock_data)) = mset stock_data"
    by (simp add: calculate_avg_pb_ratios_def Let_def mset_sort_values_date)
  ultimately show ?thesis
    by (simp add: screen_stocks_unfold calculate_avg_pb_ratios_again)
qed

theorem screen_stocks_frame_effect_witness:
  "fst (screen_stocks exact_arithmetic 2024 example_history example_snapshot lenient) =
     example_history\<lparr>hf_date_dtype := Datetime64,
                     hf_year := Some [Some 2023, Some 2022, Some 2010, Some 2024, Some 2020]\<rparr> \<and>
   screen_stocks exact_arithmetic 2024 (fst (screen_stocks exact_arithmetic 2024 example_history example_snapshot lenient))
       example_snapshot lenient =
     screen_stocks exact_arithmetic 2024 example_history example_snapshot lenient \<and>
   fst (calculate_avg_pb_ratios exact_arithmetic two_years) = rev two_years"
proof -
  have yc: "year_column (hf_rows example_history) = [Some 2023, Some 2022, Some 2010, Some 2024, Some 2020]"
    by (simp add: year_column_def screener_example_defs)
  have a: "fst (screen_stocks exact_arithmetic 2024 example_history example_snapshot lenient) =
     example_history\<lparr>hf_date_dtype := Datetime64,
                     hf_year := Some [Some 2023, Some 2022, Some 2010, Some 2024, Some 2020]\<rparr>"
    using screen_stocks_frame_effect [of exact_arithmetic 2024 example_history example_snapshot lenient two_years] yc
    by simp
  have b: "screen_stocks exact_arithmetic 2024 (fst (screen_stocks exact_arithmetic 2024 example_history example_snapshot lenient))
       example_snapshot lenient =
     screen_stocks exact_arithmetic 2024 example_history example_snapshot lenient"
    using screen_stocks_frame_effect [of exact_arithmetic 2024 example_history example_snapshot lenient two_years]
    by blast
  have c: "fst (calculate_avg_pb_ratios exact_arithmetic two_years) = rev two_years"
    by (simp add: two_years_def screener_defs screener_example_defs)
  show ?thesis
    using a b c by blast
qed

end
